theory Spec2Isabelle
  imports Main
begin

section \<open>Data model of \<open>src/request.ts\<close>\<close>

text \<open>
  A decoded JSON value, as \<open>JSON.parse\<close> / \<open>response.json()\<close> produce it. An object is
  kept as its list of own properties. The pipeline never computes with a number, so the
  numeric payload is kept as an integer.
\<close>

datatype json =
    JNull
  | JBool bool
  | JNumber int
  | JString string
  | JArray "json list"
  | JObject "(string \<times> json) list"

text \<open>A JavaScript \<open>Error\<close> value: what a hook, the transport or a body read throws.\<close>

datatype js_error = Error (message: string) (stack: string)

text \<open>
  \<open>RequestInit\<close>: the two fields the verb methods write, and every other own property
  of the caller's object (headers, credentials, ...) as a property list.
\<close>

record RequestInit =
  "method" :: "string option"
  body :: "string option"
  other_fields :: "(string \<times> string) list"

text \<open>
  The response object. \<open>json_body\<close> is what \<open>response.clone().json()\<close> settles to:
  \<open>Inl e\<close> when the read rejects with \<open>e\<close>, \<open>Inr j\<close> when it resolves to \<open>j\<close>.
  \<open>jsonPayload\<close> is the field of \<open>JsonapiResponse\<close>, \<open>None\<close> while it is undefined.
\<close>

record Response =
  status :: int
  json_body :: "js_error + json"
  jsonPayload :: "json option"

text \<open>The two error classes of the file, and the native \<open>TypeError\<close> of the runtime.\<close>

datatype RequestError =
  RequestError (message: string) (stack: string) (url: string)
               (options: RequestInit) (originalError: js_error)

datatype ResponseError =
  ResponseError (response: "Response option") (message: string)
                (originalError: "js_error option")

datatype thrown =
    Request_Error RequestError
  | Response_Error ResponseError
  | Type_Error

text \<open>
  What one call does to the outside world, in order: logger calls, hook calls, the
  transport call, and reads of a clone of the response body.
\<close>

datatype event =
    LogInfo string
  | LogDebug string
  | BeforeFetch string RequestInit
  | Fetch string RequestInit
  | AfterFetch Response json
  | ReadJson
  | ReadText

text \<open>
  Modelled from the spec: the middleware stack (\<open>./middleware-stack\<close> is imported, not
  part of the sources). Its two hooks are synchronous and either return or raise
  (\<open>Some e\<close>): they inspect or reject the in-flight call.
\<close>

record MiddlewareStack =
  beforeFetch :: "string \<Rightarrow> RequestInit \<Rightarrow> js_error option"
  afterFetch :: "Response \<Rightarrow> json \<Rightarrow> js_error option"

text \<open>
  The \<open>Request\<close> object. Its logger is modelled by the \<open>LogInfo\<close> and \<open>LogDebug\<close> events.
\<close>

record Request =
  middleware :: MiddlewareStack

text \<open>
  What the module takes from its environment: the global \<open>fetch\<close> (rejecting with
  \<open>Inl e\<close> or resolving to a response), \<open>JSON.stringify\<close> in its one-argument and its
  indented form, and the imported \<open>colorize\<close> helper, whose second argument is
  undefined (\<open>None\<close>) when \<open>JSON.stringify\<close> was given undefined.
\<close>

record globals =
  fetch :: "string \<Rightarrow> RequestInit \<Rightarrow> js_error + Response"
  JSON_stringify :: "json \<Rightarrow> string"
  JSON_stringify_indent :: "json \<Rightarrow> nat \<Rightarrow> string"
  colorize :: "string \<Rightarrow> string option \<Rightarrow> string"

section \<open>The error constructors\<close>

text \<open>\<open>new RequestError(message, url, options, originalError)\<close>: the stack is adopted.\<close>

definition new_RequestError ::
  "string \<Rightarrow> string \<Rightarrow> RequestInit \<Rightarrow> js_error \<Rightarrow> RequestError" where
  "new_RequestError msg u opts e = RequestError msg (js_error.stack e) u opts e"

text \<open>
  \<open>new ResponseError(response, message?, originalError?)\<close>: \<open>message || "Invalid Response"\<close>
  takes the default for an undefined and for an empty message.
\<close>

definition new_ResponseError ::
  "Response option \<Rightarrow> string option \<Rightarrow> js_error option \<Rightarrow> ResponseError" where
  "new_ResponseError r msg e =
     ResponseError r
       (case msg of None \<Rightarrow> ''Invalid Response''
        | Some m \<Rightarrow> if m = [] then ''Invalid Response'' else m)
       e"

section \<open>Helpers of the runtime\<close>

text \<open>\<open>Array.prototype.indexOf\<close>: the first index holding the value, or \<open>-1\<close>.\<close>

fun indexOf_from :: "int list \<Rightarrow> int \<Rightarrow> int \<Rightarrow> int" where
  "indexOf_from [] x i = - 1"
| "indexOf_from (y # ys) x i = (if y = x then i else indexOf_from ys x (i + 1))"

definition indexOf :: "int list \<Rightarrow> int \<Rightarrow> int" where
  "indexOf xs x = indexOf_from xs x 0"

text \<open>
  \<open>json.data === undefined\<close>: reading a property of \<open>null\<close> throws a \<open>TypeError\<close>; a
  primitive or an array has no \<open>data\<close> property; an object has one exactly when it is
  among its own properties (a \<open>null\<close> value is not \<open>undefined\<close>).
\<close>

fun data_is_undefined :: "json \<Rightarrow> thrown + bool" where
  "data_is_undefined JNull = Inl Type_Error"
| "data_is_undefined (JObject kvs) = Inr (map_of kvs ''data'' = None)"
| "data_is_undefined _ = Inr True"

section \<open>The methods of \<open>Request\<close>\<close>

text \<open>
  Every method returns its outcome (\<open>Inl\<close> what it throws or rejects with, \<open>Inr\<close> what
  it returns) and the events it caused, in order.
\<close>

definition logRequest :: "globals \<Rightarrow> string \<Rightarrow> string \<Rightarrow> event list" where
  "logRequest G verb u =
     [LogInfo (colorize G ''cyan'' (Some (verb @ '': '')) @ colorize G ''magenta'' (Some u))]"

definition logResponse :: "globals \<Rightarrow> json option \<Rightarrow> event list" where
  "logResponse G responseJSON =
     [LogDebug (colorize G ''bold''
        (map_option (\<lambda>j. JSON_stringify_indent G j 4) responseJSON))]"

text \<open>
  \<open>_logInvalidJSON\<close> interpolates the promise \<open>response.clone().text()\<close> without awaiting
  it: the text read is started, and the logged string holds the promise's rendering.
\<close>

definition logInvalidJSON :: "Response \<Rightarrow> event list" where
  "logInvalidJSON r = [ReadText, LogDebug ''Invalid Response JSON: [object Promise]'']"

definition wasDelete :: "Response \<Rightarrow> RequestInit \<Rightarrow> bool" where
  "wasDelete r requestOptions \<longleftrightarrow>
     method requestOptions = Some ''DELETE'' \<and> indexOf [202, 204, 200] (status r) > - 1"

text \<open>
  \<open>_handleResponse\<close>. The returned response is the state of the response object when
  the method returns. In the parse-failure branch the variable \<open>json\<close> is still
  undefined, so the template gives \<open>invalid json: undefined\<close>.
\<close>

definition handleResponse ::
  "Request \<Rightarrow> Response \<Rightarrow> RequestInit \<Rightarrow> (thrown + Response) \<times> event list" where
  "handleResponse this r requestOptions =
     (if wasDelete r requestOptions then (Inr r, [])
      else case json_body r of
        Inl e \<Rightarrow>
          (Inl (Response_Error
                  (new_ResponseError (Some r) (Some (''invalid json: '' @ ''undefined'')) (Some e))),
           [ReadJson] @ logInvalidJSON r)
      | Inr j \<Rightarrow>
          (case afterFetch (middleware this) r j of
             Some e \<Rightarrow>
               (Inl (Response_Error
                       (new_ResponseError (Some r)
                          (Some ''afterFetch failed; review middleware.afterFetch stack'')
                          (Some e))),
                [ReadJson, AfterFetch r j])
           | None \<Rightarrow>
               if status r \<ge> 500 then
                 (Inl (Response_Error (new_ResponseError (Some r) (Some ''Server Error'') None)),
                  [ReadJson, AfterFetch r j])
               else
                 (case (if status r \<noteq> 422 then data_is_undefined j else Inr False) of
                    Inl t \<Rightarrow> (Inl t, [ReadJson, AfterFetch r j])
                  | Inr True \<Rightarrow>
                      if status r = 404 then
                        (Inl (Response_Error
                                (new_ResponseError (Some r) (Some ''record not found'') None)),
                         [ReadJson, AfterFetch r j])
                      else
                        (Inl (Response_Error
                                (new_ResponseError (Some r) (Some ''invalid json'') None)),
                         [ReadJson, AfterFetch r j] @ logInvalidJSON r)
                  | Inr False \<Rightarrow>
                      (Inr (r\<lparr>jsonPayload := Some j\<rparr>), [ReadJson, AfterFetch r j]))))"

text \<open>\<open>_fetch\<close>: the hook, the transport, the classification.\<close>

definition fetch_impl ::
  "globals \<Rightarrow> Request \<Rightarrow> string \<Rightarrow> RequestInit \<Rightarrow> (thrown + Response) \<times> event list" where
  "fetch_impl G this u opts =
     (case beforeFetch (middleware this) u opts of
        Some e \<Rightarrow>
          (Inl (Request_Error
                  (new_RequestError ''beforeFetch failed; review middleware.beforeFetch stack''
                     u opts e)),
           [BeforeFetch u opts])
      | None \<Rightarrow>
          (case fetch G u opts of
             Inl e \<Rightarrow>
               (Inl (Response_Error
                       (new_ResponseError None (Some (js_error.message e)) (Some e))),
                [BeforeFetch u opts, Fetch u opts])
           | Inr r \<Rightarrow>
               (case handleResponse this r opts of
                  (res, evs) \<Rightarrow> (res, [BeforeFetch u opts, Fetch u opts] @ evs))))"

text \<open>
  \<open>_fetchWithLogging\<close>: \<open>options.method || "UNDEFINED METHOD"\<close> takes the default for an
  undefined and for an empty method; the payload is logged only when \<open>_fetch\<close> returned.
\<close>

definition fetchWithLogging ::
  "globals \<Rightarrow> Request \<Rightarrow> string \<Rightarrow> RequestInit \<Rightarrow> (thrown + Response) \<times> event list" where
  "fetchWithLogging G this u opts =
     (let verb = (case method opts of None \<Rightarrow> ''UNDEFINED METHOD''
                  | Some m \<Rightarrow> if m = [] then ''UNDEFINED METHOD'' else m)
      in case fetch_impl G this u opts of
           (Inl t, evs) \<Rightarrow> (Inl t, logRequest G verb u @ evs)
         | (Inr r, evs) \<Rightarrow> (Inr r, logRequest G verb u @ evs @ logResponse G (jsonPayload r)))"

text \<open>
  The four verb methods. Each writes to the caller's options object and then delegates;
  the second component of the result is the state of that object afterwards.
\<close>

definition get ::
  "globals \<Rightarrow> Request \<Rightarrow> string \<Rightarrow> RequestInit
     \<Rightarrow> ((thrown + Response) \<times> event list) \<times> RequestInit" where
  "get G this u opts =
     (let opts1 = opts\<lparr>method := Some ''GET''\<rparr>
      in (fetchWithLogging G this u opts1, opts1))"

definition post ::
  "globals \<Rightarrow> Request \<Rightarrow> string \<Rightarrow> json \<Rightarrow> RequestInit
     \<Rightarrow> ((thrown + Response) \<times> event list) \<times> RequestInit" where
  "post G this u payload opts =
     (let opts1 = opts\<lparr>method := Some ''POST''\<rparr>;
          opts2 = opts1\<lparr>body := Some (JSON_stringify G payload)\<rparr>
      in (fetchWithLogging G this u opts2, opts2))"

definition patch ::
  "globals \<Rightarrow> Request \<Rightarrow> string \<Rightarrow> json \<Rightarrow> RequestInit
     \<Rightarrow> ((thrown + Response) \<times> event list) \<times> RequestInit" where
  "patch G this u payload opts =
     (let opts1 = opts\<lparr>method := Some ''PATCH''\<rparr>;
          opts2 = opts1\<lparr>body := Some (JSON_stringify G payload)\<rparr>
      in (fetchWithLogging G this u opts2, opts2))"

definition delete ::
  "globals \<Rightarrow> Request \<Rightarrow> string \<Rightarrow> RequestInit
     \<Rightarrow> ((thrown + Response) \<times> event list) \<times> RequestInit" where
  "delete G this u opts =
     (let opts1 = opts\<lparr>method := Some ''DELETE''\<rparr>
      in (fetchWithLogging G this u opts1, opts1))"

section \<open>Observing a call\<close>

text \<open>
  Call counts read off the events of a call: transport calls, reads of the response
  body (JSON or text), and calls of the post-fetch hook.
\<close>

fun is_Fetch :: "event \<Rightarrow> bool" where
  "is_Fetch (Fetch u opts) = True"
| "is_Fetch _ = False"

fun is_body_read :: "event \<Rightarrow> bool" where
  "is_body_read ReadJson = True"
| "is_body_read ReadText = True"
| "is_body_read _ = False"

fun is_AfterFetch :: "event \<Rightarrow> bool" where
  "is_AfterFetch (AfterFetch r j) = True"
| "is_AfterFetch _ = False"

definition fetch_calls :: "event list \<Rightarrow> nat" where
  "fetch_calls evs = length (filter is_Fetch evs)"

definition body_reads :: "event list \<Rightarrow> nat" where
  "body_reads evs = length (filter is_body_read evs)"

definition afterFetch_calls :: "event list \<Rightarrow> nat" where
  "afterFetch_calls evs = length (filter is_AfterFetch evs)"

section \<open>Stubs for concrete runs\<close>

text \<open>
  A transport stub that settles every call the same way, hooks that always return or
  always raise, an uncoloured \<open>colorize\<close>, and an options object with one extra field.
\<close>

definition stub_colorize :: "string \<Rightarrow> string option \<Rightarrow> string" where
  "stub_colorize c t = (case t of None \<Rightarrow> ''undefined'' | Some s \<Rightarrow> s)"

definition stub_globals :: "js_error + Response \<Rightarrow> globals" where
  "stub_globals out =
     \<lparr>fetch = (\<lambda>u opts. out), JSON_stringify = (\<lambda>j. ''{}''),
      JSON_stringify_indent = (\<lambda>j n. ''{}''), colorize = stub_colorize\<rparr>"

definition stub_request :: "js_error option \<Rightarrow> js_error option \<Rightarrow> Request" where
  "stub_request b a =
     \<lparr>middleware = \<lparr>beforeFetch = (\<lambda>u opts. b), afterFetch = (\<lambda>r j. a)\<rparr>\<rparr>"

definition caller_options :: RequestInit where
  "caller_options =
     \<lparr>method = None, body = None, other_fields = [(''credentials'', ''include'')]\<rparr>"

definition stub_response :: "int \<Rightarrow> js_error + json \<Rightarrow> Response" where
  "stub_response s b = \<lparr>status = s, json_body = b, jsonPayload = None\<rparr>"

section \<open>Facts about the pipeline\<close>

subsection \<open>The steps of \<open>_fetch\<close> and \<open>_handleResponse\<close>, case by case\<close>

lemma indexOf_statuses: "indexOf [202, 204, 200] s > - 1 \<longleftrightarrow> s = 200 \<or> s = 202 \<or> s = 204"
  by (auto simp: indexOf_def)

lemma wasDelete_iff:
  "wasDelete r opts \<longleftrightarrow>
     method opts = Some ''DELETE'' \<and> (status r = 200 \<or> status r = 202 \<or> status r = 204)"
  by (simp add: wasDelete_def indexOf_statuses)

lemma fetch_impl_beforeFetch_raises:
  "beforeFetch (middleware this) u opts = Some e \<Longrightarrow>
   fetch_impl G this u opts =
     (Inl (Request_Error (RequestError ''beforeFetch failed; review middleware.beforeFetch stack''
             (js_error.stack e) u opts e)), [BeforeFetch u opts])"
  by (simp add: fetch_impl_def new_RequestError_def)

lemma fetch_impl_transport_fails:
  "beforeFetch (middleware this) u opts = None \<Longrightarrow> fetch G u opts = Inl e \<Longrightarrow>
   fetch_impl G this u opts =
     (Inl (Response_Error (new_ResponseError None (Some (js_error.message e)) (Some e))),
      [BeforeFetch u opts, Fetch u opts])"
  by (simp add: fetch_impl_def)

lemma fetch_impl_response:
  "beforeFetch (middleware this) u opts = None \<Longrightarrow> fetch G u opts = Inr r \<Longrightarrow>
   fetch_impl G this u opts =
     (fst (handleResponse this r opts),
      [BeforeFetch u opts, Fetch u opts] @ snd (handleResponse this r opts))"
  by (simp add: fetch_impl_def split: prod.splits)

lemma fst_fetchWithLogging: "fst (fetchWithLogging G this u opts) = fst (fetch_impl G this u opts)"
  by (simp add: fetchWithLogging_def Let_def split: prod.splits sum.splits)

lemma snd_fetchWithLogging:
  "\<exists>pre post. snd (fetchWithLogging G this u opts) = pre @ snd (fetch_impl G this u opts) @ post
     \<and> fetch_calls pre = 0 \<and> fetch_calls post = 0
     \<and> body_reads pre = 0 \<and> body_reads post = 0
     \<and> afterFetch_calls pre = 0 \<and> afterFetch_calls post = 0"
proof (cases "fetch_impl G this u opts")
  case (Pair res evs)
  show ?thesis
  proof (cases res)
    case (Inl t)
    with Pair show ?thesis
      apply (simp add: fetchWithLogging_def Let_def)
      apply (rule exI [of _ "logRequest G _ u"])
      apply (rule exI [of _ "[]"])
      apply (simp add: logRequest_def fetch_calls_def body_reads_def afterFetch_calls_def)
      done
  next
    case (Inr r)
    with Pair show ?thesis
      apply (simp add: fetchWithLogging_def Let_def)
      apply (rule exI [of _ "logRequest G _ u"])
      apply (rule exI [of _ "logResponse G (jsonPayload r)"])
      apply (simp add: logRequest_def logResponse_def fetch_calls_def body_reads_def afterFetch_calls_def)
      done
  qed
qed

lemma handleResponse_short_circuit:
  "wasDelete r opts \<Longrightarrow> handleResponse this r opts = (Inr r, [])"
  by (simp add: handleResponse_def)

lemma handleResponse_parse_fails:
  "\<not> wasDelete r opts \<Longrightarrow> json_body r = Inl e \<Longrightarrow>
   handleResponse this r opts =
     (Inl (Response_Error (ResponseError (Some r) ''invalid json: undefined'' (Some e))),
      [ReadJson, ReadText, LogDebug ''Invalid Response JSON: [object Promise]''])"
  by (simp add: handleResponse_def new_ResponseError_def logInvalidJSON_def)

lemma handleResponse_server_error:
  "status r \<ge> 500 \<Longrightarrow> json_body r = Inr j \<Longrightarrow> afterFetch (middleware this) r j = None \<Longrightarrow>
   fst (handleResponse this r opts) =
     Inl (Response_Error (ResponseError (Some r) ''Server Error'' None))"
  by (simp add: handleResponse_def new_ResponseError_def wasDelete_iff)

lemma handleResponse_422:
  "status r = 422 \<Longrightarrow> json_body r = Inr j \<Longrightarrow> afterFetch (middleware this) r j = None \<Longrightarrow>
   fst (handleResponse this r opts) = Inr (r\<lparr>jsonPayload := Some j\<rparr>)"
  by (simp add: handleResponse_def wasDelete_iff)

lemma handleResponse_404:
  "status r = 404 \<Longrightarrow> json_body r = Inr j \<Longrightarrow> afterFetch (middleware this) r j = None \<Longrightarrow>
   fst (handleResponse this r opts) =
     (case data_is_undefined j of
        Inl t \<Rightarrow> Inl t
      | Inr True \<Rightarrow> Inl (Response_Error (ResponseError (Some r) ''record not found'' None))
      | Inr False \<Rightarrow> Inr (r\<lparr>jsonPayload := Some j\<rparr>))"
  by (simp add: handleResponse_def new_ResponseError_def wasDelete_iff split: sum.splits bool.splits)

lemma handleResponse_success:
  "fst (handleResponse this r opts) = Inr r' \<Longrightarrow> \<not> wasDelete r opts \<Longrightarrow>
   \<exists>j. json_body r = Inr j \<and> r' = r\<lparr>jsonPayload := Some j\<rparr>"
  by (auto simp: handleResponse_def split: if_splits sum.splits option.splits bool.splits)

lemma fetch_calls_append: "fetch_calls (xs @ ys) = fetch_calls xs + fetch_calls ys"
  by (simp add: fetch_calls_def)
lemma body_reads_append: "body_reads (xs @ ys) = body_reads xs + body_reads ys"
  by (simp add: body_reads_def)
lemma afterFetch_calls_append: "afterFetch_calls (xs @ ys) = afterFetch_calls xs + afterFetch_calls ys"
  by (simp add: afterFetch_calls_def)

lemmas stub_defs = stub_globals_def stub_request_def stub_response_def caller_options_def
  stub_colorize_def

lemmas run_defs = get_def post_def patch_def delete_def fetchWithLogging_def fetch_impl_def
  handleResponse_def wasDelete_def indexOf_def new_ResponseError_def new_RequestError_def
  logRequest_def logResponse_def logInvalidJSON_def Let_def

text \<open>The \<open>DELETE\<close> short-circuit, seen from \<open>_fetch\<close>.\<close>

lemma delete_short_circuit:
  assumes "beforeFetch (middleware this) u (opts\<lparr>method := Some ''DELETE''\<rparr>) = None"
    and "fetch G u (opts\<lparr>method := Some ''DELETE''\<rparr>) = Inr r"
    and "status r \<in> {200, 202, 204}"
  shows "fetch_impl G this u (opts\<lparr>method := Some ''DELETE''\<rparr>) =
           (Inr r, [BeforeFetch u (opts\<lparr>method := Some ''DELETE''\<rparr>),
                    Fetch u (opts\<lparr>method := Some ''DELETE''\<rparr>)])"
proof -
  have "wasDelete r (opts\<lparr>method := Some ''DELETE''\<rparr>)"
    using assms(3) by (simp add: wasDelete_iff)
  then show ?thesis
    by (simp add: fetch_impl_response [OF assms(1,2)] handleResponse_short_circuit)
qed

section \<open>The claims\<close>

text \<open>
  C1. When the \<open>beforeFetch\<close> hook raises, the call ends in a \<open>RequestError\<close> carrying
  the fixed diagnostic message, the URL, the options and the error the hook threw (whose
  stack it adopts), and the transport is not invoked: the call's events hold no transport
  call.
\<close>

theorem beforeFetch_raises_aborts:
  assumes "beforeFetch (middleware this) u opts = Some e"
  shows "fst (fetchWithLogging G this u opts) =
           Inl (Request_Error (RequestError
                  ''beforeFetch failed; review middleware.beforeFetch stack''
                  (js_error.stack e) u opts e))
         \<and> fetch_calls (snd (fetchWithLogging G this u opts)) = 0"
proof -
  obtain pre post where
    "snd (fetchWithLogging G this u opts) = pre @ snd (fetch_impl G this u opts) @ post"
    "fetch_calls pre = 0" "fetch_calls post = 0"
    using snd_fetchWithLogging by blast
  then show ?thesis
    using assms
    by (simp add: fst_fetchWithLogging fetch_impl_beforeFetch_raises fetch_calls_append)
       (simp add: fetch_calls_def)
qed

theorem beforeFetch_raises_aborts_witness:
  "fst (fetchWithLogging (stub_globals (Inr (stub_response 200 (Inr (JObject [(''data'', JArray [])])))))
          (stub_request (Some (Error ''no token'' ''at hook'')) None) ''/people'' caller_options) =
     Inl (Request_Error (RequestError
            ''beforeFetch failed; review middleware.beforeFetch stack''
            ''at hook'' ''/people'' caller_options (Error ''no token'' ''at hook'')))
   \<and> fetch_calls (snd (fetchWithLogging
        (stub_globals (Inr (stub_response 200 (Inr (JObject [(''data'', JArray [])])))))
        (stub_request (Some (Error ''no token'' ''at hook'')) None) ''/people'' caller_options)) = 0"
  using beforeFetch_raises_aborts
    [of "stub_request (Some (Error ''no token'' ''at hook'')) None" "''/people''" caller_options
        "Error ''no token'' ''at hook''"
        "stub_globals (Inr (stub_response 200 (Inr (JObject [(''data'', JArray [])]))))"]
  by (simp add: stub_request_def)

text \<open>
  C2, as stated, fails: a \<open>DELETE\<close> answered with status 204 resolves, and the returned
  response carries no \<open>jsonPayload\<close> although its body parses.
\<close>

theorem delete_success_without_payload:
  "fst (fst (delete (stub_globals (Inr (stub_response 204 (Inr (JObject [(''meta'', JObject [])])))))
               (stub_request None None) ''/people/1'' caller_options))
     = Inr \<lparr>status = 204, json_body = Inr (JObject [(''meta'', JObject [])]), jsonPayload = None\<rparr>"
  by (simp add: run_defs stub_defs)

text \<open>
  C2, amended. For every call that resolves and to which the \<open>DELETE\<close> short-circuit does
  not apply, the returned response is the transport's response with \<open>jsonPayload\<close> set to
  the value its body parses to.
\<close>

theorem success_carries_parsed_body:
  assumes "fst (fetchWithLogging G this u opts) = Inr r'"
    and "fetch G u opts = Inr r"
    and "\<not> wasDelete r opts"
  shows "\<exists>j. json_body r' = Inr j \<and> jsonPayload r' = Some j \<and> r' = r\<lparr>jsonPayload := Some j\<rparr>"
proof -
  have bf: "beforeFetch (middleware this) u opts = None"
    using assms(1)
    by (cases "beforeFetch (middleware this) u opts")
       (simp_all add: fst_fetchWithLogging fetch_impl_beforeFetch_raises)
  have "fst (handleResponse this r opts) = Inr r'"
    using assms(1) by (simp add: fst_fetchWithLogging fetch_impl_response [OF bf assms(2)])
  then obtain j where "json_body r = Inr j" "r' = r\<lparr>jsonPayload := Some j\<rparr>"
    using handleResponse_success assms(3) by blast
  then show ?thesis by simp
qed

theorem success_carries_parsed_body_witness:
  "\<exists>j. json_body (stub_response 200 (Inr (JObject [(''data'', JArray [])]))\<lparr>jsonPayload := Some (JObject [(''data'', JArray [])])\<rparr>) = Inr j
     \<and> jsonPayload (stub_response 200 (Inr (JObject [(''data'', JArray [])]))\<lparr>jsonPayload := Some (JObject [(''data'', JArray [])])\<rparr>) = Some j
     \<and> stub_response 200 (Inr (JObject [(''data'', JArray [])]))\<lparr>jsonPayload := Some (JObject [(''data'', JArray [])])\<rparr>
         = stub_response 200 (Inr (JObject [(''data'', JArray [])]))\<lparr>jsonPayload := Some j\<rparr>"
proof -
  let ?r = "stub_response 200 (Inr (JObject [(''data'', JArray [])]))"
  let ?G = "stub_globals (Inr ?r)"
  let ?this = "stub_request None None"
  let ?opts = "caller_options\<lparr>method := Some ''GET''\<rparr>"
  have h1: "fst (fetchWithLogging ?G ?this ''/people'' ?opts)
              = Inr (?r\<lparr>jsonPayload := Some (JObject [(''data'', JArray [])])\<rparr>)"
    by (simp add: run_defs stub_defs)
  have h2: "fetch ?G ''/people'' ?opts = Inr ?r"
    by (simp add: stub_globals_def)
  have h3: "\<not> wasDelete ?r ?opts"
    by (simp add: wasDelete_iff caller_options_def)
  show ?thesis
    using success_carries_parsed_body [OF h1 h2 h3] .
qed

text \<open>
  C3, as stated, fails: a call answered with status 404 whose body holds a top-level
  \<open>data\<close> field resolves, with the payload attached; no error is raised.
\<close>

theorem status_404_with_data_succeeds:
  "fst (fst (get (stub_globals (Inr (stub_response 404 (Inr (JObject [(''data'', JArray [])])))))
               (stub_request None None) ''/people/1'' caller_options))
     = Inr \<lparr>status = 404, json_body = Inr (JObject [(''data'', JArray [])]),
            jsonPayload = Some (JObject [(''data'', JArray [])])\<rparr>"
  by (simp add: run_defs stub_defs)

text \<open>
  C3, amended. For every call answered with status 404 whose body parses as JSON and whose
  \<open>afterFetch\<close> hook does not raise: when the parsed body is not null and has no top-level
  \<open>data\<close> field, a \<open>ResponseError\<close> with message \<open>record not found\<close> is raised; when it
  has a top-level \<open>data\<close> field, the call resolves with the payload attached.
\<close>

theorem status_404_classification:
  assumes "beforeFetch (middleware this) u opts = None"
    and "fetch G u opts = Inr r"
    and "status r = 404"
    and "json_body r = Inr j"
    and "afterFetch (middleware this) r j = None"
  shows "(data_is_undefined j = Inr True \<longrightarrow>
            fst (fetchWithLogging G this u opts) =
              Inl (Response_Error (ResponseError (Some r) ''record not found'' None)))
       \<and> (data_is_undefined j = Inr False \<longrightarrow>
            fst (fetchWithLogging G this u opts) = Inr (r\<lparr>jsonPayload := Some j\<rparr>))"
  using handleResponse_404 [OF assms(3-5), of opts]
  by (simp add: fst_fetchWithLogging fetch_impl_response [OF assms(1,2)])

theorem status_404_classification_witness:
  "(data_is_undefined (JObject [(''errors'', JArray [])]) = Inr True \<and>
      fst (fetchWithLogging (stub_globals (Inr (stub_response 404 (Inr (JObject [(''errors'', JArray [])])))))
             (stub_request None None) ''/people/1'' caller_options) =
        Inl (Response_Error (ResponseError
               (Some (stub_response 404 (Inr (JObject [(''errors'', JArray [])]))))
               ''record not found'' None)))
   \<and> (data_is_undefined (JObject [(''data'', JNull)]) = Inr False \<and>
      fst (fetchWithLogging (stub_globals (Inr (stub_response 404 (Inr (JObject [(''data'', JNull)])))))
             (stub_request None None) ''/people/1'' caller_options) =
        Inr (stub_response 404 (Inr (JObject [(''data'', JNull)]))
               \<lparr>jsonPayload := Some (JObject [(''data'', JNull)])\<rparr>))"
  using status_404_classification
      [of "stub_request None None" "''/people/1''" caller_options
          "stub_globals (Inr (stub_response 404 (Inr (JObject [(''errors'', JArray [])]))))"
          "stub_response 404 (Inr (JObject [(''errors'', JArray [])]))"
          "JObject [(''errors'', JArray [])]"]
    status_404_classification
      [of "stub_request None None" "''/people/1''" caller_options
          "stub_globals (Inr (stub_response 404 (Inr (JObject [(''data'', JNull)]))))"
          "stub_response 404 (Inr (JObject [(''data'', JNull)]))"
          "JObject [(''data'', JNull)]"]
  by (simp add: stub_request_def stub_globals_def stub_response_def)

text \<open>
  C4. For every \<open>delete\<close> call answered with status 200, 202 or 204, the call resolves
  with the transport's response and no read of the body (JSON or text) is attempted,
  whatever a read of that body would do.
\<close>

theorem delete_short_circuit_no_body_read:
  assumes "beforeFetch (middleware this) u (opts\<lparr>method := Some ''DELETE''\<rparr>) = None"
    and "fetch G u (opts\<lparr>method := Some ''DELETE''\<rparr>) = Inr r"
    and "status r \<in> {200, 202, 204}"
  shows "fst (fst (delete G this u opts)) = Inr r
       \<and> body_reads (snd (fst (delete G this u opts))) = 0"
proof -
  let ?o = "opts\<lparr>method := Some ''DELETE''\<rparr>"
  obtain pre post where
    "snd (fetchWithLogging G this u ?o) = pre @ snd (fetch_impl G this u ?o) @ post"
    "body_reads pre = 0" "body_reads post = 0"
    using snd_fetchWithLogging by blast
  then show ?thesis
    by (simp add: delete_def Let_def fst_fetchWithLogging delete_short_circuit [OF assms]
          body_reads_append)
       (simp add: body_reads_def)
qed

theorem delete_short_circuit_no_body_read_witness:
  "fst (fst (delete (stub_globals (Inr (stub_response 204 (Inl (Error ''body stream failed'' '''')))))
               (stub_request None None) ''/people/1'' caller_options))
     = Inr (stub_response 204 (Inl (Error ''body stream failed'' '''')))
   \<and> body_reads (snd (fst (delete
        (stub_globals (Inr (stub_response 204 (Inl (Error ''body stream failed'' '''')))))
        (stub_request None None) ''/people/1'' caller_options))) = 0"
  using delete_short_circuit_no_body_read
      [of "stub_request None None" "''/people/1''" caller_options
          "stub_globals (Inr (stub_response 204 (Inl (Error ''body stream failed'' ''''))))"
          "stub_response 204 (Inl (Error ''body stream failed'' ''''))"]
  by (simp add: stub_request_def stub_globals_def stub_response_def)

text \<open>
  C5. For every call whose body parses as JSON and whose \<open>afterFetch\<close> hook does not
  raise, a status of 500 or more raises a \<open>ResponseError\<close> with message
  \<open>Server Error\<close>, whatever the parsed body holds.
\<close>

theorem server_error_takes_precedence:
  assumes "beforeFetch (middleware this) u opts = None"
    and "fetch G u opts = Inr r"
    and "json_body r = Inr j"
    and "afterFetch (middleware this) r j = None"
    and "status r \<ge> 500"
  shows "fst (fetchWithLogging G this u opts) =
           Inl (Response_Error (ResponseError (Some r) ''Server Error'' None))"
  using handleResponse_server_error [OF assms(5,3,4), of opts]
  by (simp add: fst_fetchWithLogging fetch_impl_response [OF assms(1,2)])

theorem server_error_takes_precedence_witness:
  "fst (fetchWithLogging
          (stub_globals (Inr (stub_response 503 (Inr (JObject [(''data'', JArray [])])))))
          (stub_request None None) ''/people'' caller_options) =
     Inl (Response_Error (ResponseError
            (Some (stub_response 503 (Inr (JObject [(''data'', JArray [])]))))
            ''Server Error'' None))"
  using server_error_takes_precedence
      [of "stub_request None None" "''/people''" caller_options
          "stub_globals (Inr (stub_response 503 (Inr (JObject [(''data'', JArray [])]))))"
          "stub_response 503 (Inr (JObject [(''data'', JArray [])]))"
          "JObject [(''data'', JArray [])]"]
  by (simp add: stub_request_def stub_globals_def stub_response_def)

text \<open>
  C6. For every call answered with status 422 whose body parses as JSON and whose
  \<open>afterFetch\<close> hook does not raise, the call resolves with the parsed body attached,
  whether or not it has a top-level \<open>data\<close> field.
\<close>

theorem status_422_bypasses_data_check:
  assumes "beforeFetch (middleware this) u opts = None"
    and "fetch G u opts = Inr r"
    and "status r = 422"
    and "json_body r = Inr j"
    and "afterFetch (middleware this) r j = None"
  shows "fst (fetchWithLogging G this u opts) = Inr (r\<lparr>jsonPayload := Some j\<rparr>)"
  using handleResponse_422 [OF assms(3-5), of opts]
  by (simp add: fst_fetchWithLogging fetch_impl_response [OF assms(1,2)])

theorem status_422_bypasses_data_check_witness:
  "data_is_undefined (JObject [(''errors'', JArray [JObject [(''title'', JString ''Invalid'')]])])
     = Inr True
   \<and> fst (fetchWithLogging
          (stub_globals (Inr (stub_response 422
             (Inr (JObject [(''errors'', JArray [JObject [(''title'', JString ''Invalid'')]])])))))
          (stub_request None None) ''/people'' caller_options) =
     Inr \<lparr>status = 422,
          json_body = Inr (JObject [(''errors'', JArray [JObject [(''title'', JString ''Invalid'')]])]),
          jsonPayload = Some (JObject [(''errors'', JArray [JObject [(''title'', JString ''Invalid'')]])])\<rparr>"
  using status_422_bypasses_data_check
      [of "stub_request None None" "''/people''" caller_options
          "stub_globals (Inr (stub_response 422
             (Inr (JObject [(''errors'', JArray [JObject [(''title'', JString ''Invalid'')]])]))))"
          "stub_response 422
             (Inr (JObject [(''errors'', JArray [JObject [(''title'', JString ''Invalid'')]])]))"
          "JObject [(''errors'', JArray [JObject [(''title'', JString ''Invalid'')]])]"]
  by (simp add: stub_request_def stub_globals_def stub_response_def)

text \<open>
  C7. For every call whose response body fails to parse as JSON and to which the
  \<open>DELETE\<close> short-circuit does not apply, a \<open>ResponseError\<close> is raised that wraps the
  parse error; its message is \<open>invalid json: undefined\<close>, which begins with
  \<open>invalid json:\<close>; and the last events before the raise are the failed read and the
  debug log of the invalid body.
\<close>

theorem parse_failure_is_invalid_json:
  assumes "beforeFetch (middleware this) u opts = None"
    and "fetch G u opts = Inr r"
    and "\<not> wasDelete r opts"
    and "json_body r = Inl e"
  shows "\<exists>msg pre.
           fst (fetchWithLogging G this u opts) =
             Inl (Response_Error (ResponseError (Some r) msg (Some e)))
         \<and> msg = ''invalid json: undefined''
         \<and> take 13 msg = ''invalid json:''
         \<and> snd (fetchWithLogging G this u opts) =
             pre @ [ReadJson, ReadText, LogDebug ''Invalid Response JSON: [object Promise]'']"
proof -
  have res: "fetch_impl G this u opts =
      (Inl (Response_Error (ResponseError (Some r) ''invalid json: undefined'' (Some e))),
       [BeforeFetch u opts, Fetch u opts, ReadJson, ReadText,
        LogDebug ''Invalid Response JSON: [object Promise]''])"
    by (simp add: fetch_impl_response [OF assms(1,2)] handleResponse_parse_fails [OF assms(3,4)])
  have "\<exists>pre. snd (fetchWithLogging G this u opts) =
      pre @ [ReadJson, ReadText, LogDebug ''Invalid Response JSON: [object Promise]'']"
    by (simp add: fetchWithLogging_def Let_def res)
  then show ?thesis
    by (simp add: fst_fetchWithLogging res)
qed

theorem parse_failure_is_invalid_json_witness:
  "\<exists>msg pre.
     fst (fetchWithLogging
            (stub_globals (Inr (stub_response 200 (Inl (Error ''Unexpected token < in JSON'' '''')))))
            (stub_request None None) ''/people'' caller_options) =
       Inl (Response_Error (ResponseError
              (Some (stub_response 200 (Inl (Error ''Unexpected token < in JSON'' ''''))))
              msg (Some (Error ''Unexpected token < in JSON'' ''''))))
   \<and> msg = ''invalid json: undefined''
   \<and> take 13 msg = ''invalid json:''
   \<and> snd (fetchWithLogging
            (stub_globals (Inr (stub_response 200 (Inl (Error ''Unexpected token < in JSON'' '''')))))
            (stub_request None None) ''/people'' caller_options) =
       pre @ [ReadJson, ReadText, LogDebug ''Invalid Response JSON: [object Promise]'']"
proof -
  let ?r = "stub_response 200 (Inl (Error ''Unexpected token < in JSON'' ''''))"
  have h1: "beforeFetch (middleware (stub_request None None)) ''/people'' caller_options = None"
    by (simp add: stub_request_def)
  have h2: "fetch (stub_globals (Inr ?r)) ''/people'' caller_options = Inr ?r"
    by (simp add: stub_globals_def)
  have h3: "\<not> wasDelete ?r caller_options"
    by (simp add: wasDelete_iff caller_options_def)
  have h4: "json_body ?r = Inl (Error ''Unexpected token < in JSON'' '''')"
    by (simp add: stub_response_def)
  show ?thesis
    using parse_failure_is_invalid_json [OF h1 h2 h3 h4] .
qed

text \<open>
  C8. Each verb method writes to the caller's options object: \<open>get\<close> and \<open>delete\<close> set
  only \<open>method\<close>; \<open>post\<close> and \<open>patch\<close> set \<open>method\<close> and set \<open>body\<close> to the JSON
  serialization of the payload; every other field keeps its value; and the object the
  shared routine (hook, transport) receives is that same, written-to object.
\<close>

theorem verbs_mutate_options:
  "snd (get G this u opts) = opts\<lparr>method := Some ''GET''\<rparr>
   \<and> snd (delete G this u opts) = opts\<lparr>method := Some ''DELETE''\<rparr>
   \<and> snd (post G this u payload opts) =
       opts\<lparr>method := Some ''POST'', body := Some (JSON_stringify G payload)\<rparr>
   \<and> snd (patch G this u payload opts) =
       opts\<lparr>method := Some ''PATCH'', body := Some (JSON_stringify G payload)\<rparr>
   \<and> body (snd (get G this u opts)) = body opts
   \<and> body (snd (delete G this u opts)) = body opts
   \<and> other_fields (snd (get G this u opts)) = other_fields opts
   \<and> other_fields (snd (delete G this u opts)) = other_fields opts
   \<and> other_fields (snd (post G this u payload opts)) = other_fields opts
   \<and> other_fields (snd (patch G this u payload opts)) = other_fields opts
   \<and> fst (get G this u opts) = fetchWithLogging G this u (snd (get G this u opts))
   \<and> fst (delete G this u opts) = fetchWithLogging G this u (snd (delete G this u opts))
   \<and> fst (post G this u payload opts) =
       fetchWithLogging G this u (snd (post G this u payload opts))
   \<and> fst (patch G this u payload opts) =
       fetchWithLogging G this u (snd (patch G this u payload opts))"
  by (simp add: get_def delete_def post_def patch_def Let_def)

text \<open>
  C9, as stated, fails: when the transport fails with an error whose message is empty,
  the \<open>ResponseError\<close> carries the default message \<open>Invalid Response\<close>, not the
  transport error's own message.
\<close>

theorem transport_error_empty_message:
  "fst (fst (get (stub_globals (Inl (Error [] ''at connect''))) (stub_request None None)
               ''/people'' caller_options))
     = Inl (Response_Error (ResponseError None ''Invalid Response'' (Some (Error [] ''at connect''))))
   \<and> js_error.message (Error [] ''at connect'') \<noteq> ''Invalid Response''"
  by (simp add: run_defs stub_defs)

text \<open>
  C9, amended. For every call whose transport call fails, a \<open>ResponseError\<close> is raised
  whose response is null, which wraps the transport's error, and whose message is the
  transport error's message when that is not empty and \<open>Invalid Response\<close> when it is.
\<close>

theorem transport_failure_is_response_error:
  assumes "beforeFetch (middleware this) u opts = None"
    and "fetch G u opts = Inl e"
  shows "fst (fetchWithLogging G this u opts) =
           Inl (Response_Error (ResponseError None
                  (if js_error.message e = [] then ''Invalid Response'' else js_error.message e)
                  (Some e)))"
  by (simp add: fst_fetchWithLogging fetch_impl_transport_fails [OF assms] new_ResponseError_def)

theorem transport_failure_is_response_error_witness:
  "fst (fetchWithLogging (stub_globals (Inl (Error ''Failed to fetch'' ''at connect'')))
          (stub_request None None) ''/people'' caller_options) =
     Inl (Response_Error (ResponseError None ''Failed to fetch''
            (Some (Error ''Failed to fetch'' ''at connect''))))"
  using transport_failure_is_response_error
      [of "stub_request None None" "''/people''" caller_options
          "stub_globals (Inl (Error ''Failed to fetch'' ''at connect''))"
          "Error ''Failed to fetch'' ''at connect''"]
  by (simp add: stub_request_def stub_globals_def)

text \<open>
  C10. For every \<open>delete\<close> call answered with status 200, 202 or 204, the
  \<open>afterFetch\<close> hook is not invoked, and replacing the hook by any other one (one that
  always raises, say) leaves the outcome and the events of the call unchanged.
\<close>

theorem delete_short_circuit_skips_afterFetch:
  assumes "beforeFetch (middleware this) u (opts\<lparr>method := Some ''DELETE''\<rparr>) = None"
    and "fetch G u (opts\<lparr>method := Some ''DELETE''\<rparr>) = Inr r"
    and "status r \<in> {200, 202, 204}"
  shows "afterFetch_calls (snd (fst (delete G this u opts))) = 0
       \<and> delete G (this\<lparr>middleware := (middleware this)\<lparr>afterFetch := hook\<rparr>\<rparr>) u opts
           = delete G this u opts"
proof -
  let ?o = "opts\<lparr>method := Some ''DELETE''\<rparr>"
  let ?this' = "this\<lparr>middleware := (middleware this)\<lparr>afterFetch := hook\<rparr>\<rparr>"
  have bf': "beforeFetch (middleware ?this') u ?o = None"
    using assms(1) by simp
  have same: "fetch_impl G ?this' u ?o = fetch_impl G this u ?o"
    by (simp only: delete_short_circuit [OF assms] delete_short_circuit [OF bf' assms(2,3)])
  obtain pre post where
    "snd (fetchWithLogging G this u ?o) = pre @ snd (fetch_impl G this u ?o) @ post"
    "afterFetch_calls pre = 0" "afterFetch_calls post = 0"
    using snd_fetchWithLogging by blast
  then have "afterFetch_calls (snd (fst (delete G this u opts))) = 0"
    by (simp add: delete_def Let_def delete_short_circuit [OF assms] afterFetch_calls_append)
       (simp add: afterFetch_calls_def)
  moreover have "delete G ?this' u opts = delete G this u opts"
    using same by (simp add: delete_def Let_def fetchWithLogging_def)
  ultimately show ?thesis by simp
qed

theorem delete_short_circuit_skips_afterFetch_witness:
  "afterFetch_calls (snd (fst (delete
        (stub_globals (Inr (stub_response 200 (Inr (JObject [])))))
        (stub_request None None) ''/people/1'' caller_options))) = 0
   \<and> delete (stub_globals (Inr (stub_response 200 (Inr (JObject [])))))
        ((stub_request None None)
           \<lparr>middleware := (middleware (stub_request None None))
              \<lparr>afterFetch := (\<lambda>r j. Some (Error ''rejected'' ''at hook''))\<rparr>\<rparr>)
        ''/people/1'' caller_options
     = delete (stub_globals (Inr (stub_response 200 (Inr (JObject [])))))
         (stub_request None None) ''/people/1'' caller_options"
  using delete_short_circuit_skips_afterFetch
      [of "stub_request None None" "''/people/1''" caller_options
          "stub_globals (Inr (stub_response 200 (Inr (JObject []))))"
          "stub_response 200 (Inr (JObject []))"
          "\<lambda>r j. Some (Error ''rejected'' ''at hook'')"]
  by (simp add: stub_request_def stub_globals_def stub_response_def)

end
